theory Spec2Isabelle
  imports Complex_Main
begin

section \<open>Python strings\<close>

text \<open>
  A text is a \<^typ>\<open>string\<close>; one \<^typ>\<open>char\<close> stands for one code point of the Python
  \<open>str\<close> (code points 0 to 255), so \<^const>\<open>length\<close> is Python's \<open>len\<close>.
  \<open>py_isspace\<close> holds of the code points in that range that \<open>str.split()\<close> and
  \<open>str.strip()\<close> treat as whitespace.
\<close>

definition py_isspace :: "char \<Rightarrow> bool" where
  "py_isspace c \<longleftrightarrow>
     c \<in> {CHR 0x09, CHR 0x0A, CHR 0x0B, CHR 0x0C, CHR 0x0D,
          CHR 0x1C, CHR 0x1D, CHR 0x1E, CHR 0x1F, CHR 0x20, CHR 0x85, CHR 0xA0}"

text \<open>
  \<open>text.split()\<close>: the maximal runs of non-whitespace, in order. The first argument is
  the word read so far.
\<close>

fun split_from :: "string \<Rightarrow> string \<Rightarrow> string list" where
  "split_from w [] = (if w = [] then [] else [w])"
| "split_from w (c # cs) =
     (if py_isspace c then (if w = [] then split_from [] cs else w # split_from [] cs)
      else split_from (w @ [c]) cs)"

definition py_split :: "string \<Rightarrow> string list" where
  "py_split text = split_from [] text"

text \<open>\<open>sep.join(parts)\<close>.\<close>

fun py_join :: "string \<Rightarrow> string list \<Rightarrow> string" where
  "py_join sep [] = []"
| "py_join sep [x] = x"
| "py_join sep (x # y # ys) = x @ sep @ py_join sep (y # ys)"

text \<open>\<open>text.strip()\<close>.\<close>

definition py_strip :: "string \<Rightarrow> string" where
  "py_strip text = rev (dropWhile py_isspace (rev (dropWhile py_isspace text)))"

section \<open>Frame renderer: \<open>create_text_image\<close>\<close>

type_synonym color = "nat \<times> nat \<times> nat"

text \<open>
  A frame is the array \<open>np.array(image)\<close>: \<open>height\<close> rows of \<open>width\<close> RGB pixels.
\<close>

type_synonym image = "color list list"

text \<open>
  \<open>ImageDraw.text\<close> belongs to the imaging library. It paints into the existing buffer:
  the new value of a pixel is a function of the line drawn, the fill colour, the pixel's
  offset from the anchor and the old value. That function is the parameter \<open>paint\<close>;
  the call is taken to return. A size is a pair of naturals: \<open>Image.new\<close> raises for
  a negative one.
\<close>

type_synonym painter = "string \<Rightarrow> color \<Rightarrow> int \<Rightarrow> int \<Rightarrow> color \<Rightarrow> color"

definition margin :: int where
  "margin = 60"

definition font_size :: int where
  "font_size = 48"

definition default_size :: "nat \<times> nat" where
  "default_size = (1280, 720)"

definition default_bg_color :: color where
  "default_bg_color = (0, 0, 128)"

definition default_text_color :: color where
  "default_text_color = (255, 255, 255)"

definition Image_new :: "nat \<times> nat \<Rightarrow> color \<Rightarrow> image" where
  "Image_new sz c = replicate (snd sz) (replicate (fst sz) c)"

definition draw_text :: "painter \<Rightarrow> image \<Rightarrow> int \<times> int \<Rightarrow> string \<Rightarrow> color \<Rightarrow> image" where
  "draw_text paint img xy line fill =
     map (\<lambda>(j, row).
            map (\<lambda>(i, p). paint line fill (int i - fst xy) (int j - snd xy) p)
                (enumerate 0 row))
         (enumerate 0 img)"

text \<open>
  The estimate \<open>len(test_line) * (font_size / 2) > max_width\<close>; the division is Python's
  true division, taken in the rationals.
\<close>

definition too_wide :: "int \<Rightarrow> string \<Rightarrow> bool" where
  "too_wide max_width test_line \<longleftrightarrow>
     (of_nat (length test_line) :: rat) * (of_int font_size / 2) > of_int max_width"

text \<open>
  The loop over \<open>words\<close> (source lines 23 to 28), with the two lists it updates,
  \<open>lines\<close> and \<open>current_line\<close>, as accumulators. \<open>current_line[:-1]\<close> is
  \<^const>\<open>butlast\<close>.
\<close>

fun wrap_loop :: "int \<Rightarrow> string list \<Rightarrow> string list \<Rightarrow> string list
                    \<Rightarrow> string list \<times> string list" where
  "wrap_loop max_width lines current_line [] = (lines, current_line)"
| "wrap_loop max_width lines current_line (word # words) =
     (let current_line = current_line @ [word];
          test_line = py_join '' '' current_line
      in if too_wide max_width test_line
         then wrap_loop max_width (lines @ [py_join '' '' (butlast current_line)]) [word] words
         else wrap_loop max_width lines current_line words)"

text \<open>Source lines 16 to 31: the lines of the layout (\<open>sz\<close> is the source's \<open>size\<close>).\<close>

definition text_lines :: "string \<Rightarrow> nat \<times> nat \<Rightarrow> string list" where
  "text_lines text sz =
     (let max_width = int (fst sz) - 2 * margin;
          words = py_split text;
          (lines, current_line) = wrap_loop max_width [] [] words
      in if current_line \<noteq> [] then lines @ [py_join '' '' current_line] else lines)"

definition line_height :: int where
  "line_height = \<lfloor>(of_int font_size :: rat) * (3 / 2)\<rfloor>"

text \<open>
  The drawing loop (source lines 33 to 37): each line is drawn at \<open>(margin, y_position)\<close>
  and \<open>y_position\<close> advances by \<open>line_height\<close>. \<open>layout\<close> lists the anchors with their
  lines, \<open>draw_lines\<close> draws them.
\<close>

fun layout :: "int \<Rightarrow> string list \<Rightarrow> ((int \<times> int) \<times> string) list" where
  "layout y_position [] = []"
| "layout y_position (line # lines) =
     ((margin, y_position), line) # layout (y_position + line_height) lines"

fun draw_lines :: "painter \<Rightarrow> color \<Rightarrow> image \<Rightarrow> ((int \<times> int) \<times> string) list \<Rightarrow> image" where
  "draw_lines paint text_color img [] = img"
| "draw_lines paint text_color img ((xy, line) # rest) =
     draw_lines paint text_color (draw_text paint img xy line text_color) rest"

definition create_text_image :: "painter \<Rightarrow> string \<Rightarrow> nat \<times> nat \<Rightarrow> color \<Rightarrow> color \<Rightarrow> image" where
  "create_text_image paint text sz bg_color text_color =
     draw_lines paint text_color (Image_new sz bg_color) (layout margin (text_lines text sz))"

section \<open>Errors, files and the external collaborators\<close>

text \<open>
  The exceptions that reach a caller. \<open>ValueError\<close> and \<open>RuntimeError\<close> are raised by
  the source itself; the others stand for whatever the speech engine, the audio-clip
  reader, the audio device and the video encoder raise, with their message.
\<close>

datatype error =
    ValueError string
  | RuntimeError string
  | EngineError string
  | ClipError string
  | DeviceError string
  | EncoderError string

fun error_message :: "error \<Rightarrow> string" where
  "error_message (ValueError m) = m"
| "error_message (RuntimeError m) = m"
| "error_message (EngineError m) = m"
| "error_message (ClipError m) = m"
| "error_message (DeviceError m) = m"
| "error_message (EncoderError m) = m"

text \<open>
  A temporary audio file, seen through its two readers: \<open>sf_data\<close> is what \<open>sf.read\<close>
  returns, the number of frames \<open>len(data)\<close> and the sample rate (\<open>None\<close>: it raises);
  \<open>ff_duration\<close> is the duration \<open>AudioFileClip\<close> reports (\<open>None\<close>: it raises).
  Durations are seconds, as rationals.
\<close>

record wav =
  sf_data :: "(nat \<times> nat) option"
  ff_duration :: "rat option"

text \<open>
  One run of the speech engine (\<open>save_to_file\<close>, \<open>runAndWait\<close>): it raises, returns
  without writing the file, or writes it.
\<close>

datatype speech = Raises string | WritesNothing | Writes wav

record audio_clip =
  audio_path :: string
  audio_duration :: rat

text \<open>A video clip: an \<open>ImageClip\<close> with its duration and, possibly, its audio.\<close>

record segment =
  frame :: image
  duration :: rat
  audio :: "audio_clip option"

text \<open>The clip built by \<open>concatenate_videoclips\<close>: its parts, their start times, its length.\<close>

record timeline =
  parts :: "segment list"
  starts :: "rat list"
  total_duration :: rat

text \<open>The arguments of one \<open>write_videofile\<close> call.\<close>

record enc_params =
  fps :: nat
  codec :: string
  audio_codec :: string
  audio_bitrate :: string
  ffmpeg_params :: "string list"

text \<open>
  The collaborators, as parameters of the model. \<open>sd_play n rate\<close> is \<open>sd.play\<close> of
  \<open>n\<close> frames at \<open>rate\<close> followed by \<open>sd.wait\<close>, and \<open>write_videofile\<close> is the
  encoder; both give \<open>None\<close> when they return and the message when they raise.
  \<open>csv_rows path encoding\<close> is \<open>list(csv.reader(file))\<close> with the file opened under
  that encoding, \<open>None\<close> when that raises \<open>UnicodeDecodeError\<close>.
\<close>

record env =
  paint :: painter
  speak :: "string \<Rightarrow> speech"
  sd_play :: "nat \<Rightarrow> nat \<Rightarrow> string option"
  unlink_fails :: "string \<Rightarrow> bool"
  write_videofile :: "enc_params \<Rightarrow> timeline \<Rightarrow> string option"
  path_exists :: "string \<Rightarrow> bool"
  csv_rows :: "string \<Rightarrow> string \<Rightarrow> string list list option"

text \<open>
  What the program changes: the files of the temporary directory, the output file (the
  parameters and timeline it was encoded from), every encoder call made, and the lines
  printed by \<open>main\<close> and \<open>read_csv_with_encoding\<close>. The progress lines of the other
  functions, which format floating-point numbers, and the traceback are not recorded.
  Creating the two directories is taken to succeed.
\<close>

record world =
  temp_files :: "string \<rightharpoonup> wav"
  output_file :: "(enc_params \<times> timeline) option"
  encoder_calls :: "(enc_params \<times> timeline) list"
  stdout :: "string list"

definition print :: "string \<Rightarrow> world \<Rightarrow> world" where
  "print line w = w\<lparr>stdout := stdout w @ [line]\<rparr>"

section \<open>Input table: \<open>read_csv_with_encoding\<close>\<close>

definition encodings :: "string list" where
  "encodings = [''utf-8'', ''utf-8-sig'', ''latin1'', ''cp1252'']"

text \<open>The loop over the encodings; running off its end reaches the \<open>raise\<close>.\<close>

fun try_encodings :: "env \<Rightarrow> string \<Rightarrow> string list \<Rightarrow> world
                        \<Rightarrow> (error + string list list) \<times> world" where
  "try_encodings e file_path [] w =
     (Inl (ValueError ''Could not read CSV file with any encoding''), w)"
| "try_encodings e file_path (encoding # rest) w =
     (let w = print (''Trying '' @ encoding @ '' encoding...'') w
      in case csv_rows e file_path encoding of
           None \<Rightarrow> try_encodings e file_path rest w
         | Some data \<Rightarrow>
             if length data > 1
             then (Inr (tl data), print (''Successfully read CSV with '' @ encoding) w)
             else try_encodings e file_path rest w)"

definition read_csv_with_encoding :: "env \<Rightarrow> string \<Rightarrow> world
                                        \<Rightarrow> (error + string list list) \<times> world" where
  "read_csv_with_encoding e file_path w = try_encodings e file_path encodings w"

section \<open>Speech synthesizer adapter: \<open>create_audio_file\<close>\<close>

text \<open>
  The \<open>try\<close> block (source lines 68 to 81). Every exception in it gives \<open>False\<close>:
  \<open>sf.read\<close> raising (also when the file is missing), the division
  \<open>len(data)/samplerate\<close> by zero, and the playback of \<open>data[:int(samplerate)]\<close>.
\<close>

definition test_audio :: "env \<Rightarrow> world \<Rightarrow> string \<Rightarrow> bool" where
  "test_audio e w output_path =
     (case temp_files w output_path of
        None \<Rightarrow> False
      | Some f \<Rightarrow>
          (case sf_data f of
             None \<Rightarrow> False
           | Some (n, samplerate) \<Rightarrow>
               if samplerate = 0 then False
               else (case sd_play e (min n samplerate) samplerate of
                       Some msg \<Rightarrow> False
                     | None \<Rightarrow> True)))"

definition create_audio_file :: "env \<Rightarrow> world \<Rightarrow> string \<Rightarrow> string
                                   \<Rightarrow> (error + bool) \<times> world" where
  "create_audio_file e w text output_path =
     (case speak e text of
        Raises msg \<Rightarrow> (Inl (EngineError msg), w)
      | WritesNothing \<Rightarrow> (Inr (test_audio e w output_path), w)
      | Writes f \<Rightarrow>
          (let w = w\<lparr>temp_files := (temp_files w)(output_path \<mapsto> f)\<rparr>
           in (Inr (test_audio e w output_path), w)))"

section \<open>Segment composer: \<open>create_qa_clip\<close>\<close>

text \<open>\<open>str(n)\<close> for a natural number, used by the f-strings of the file names.\<close>

fun str_nat :: "nat \<Rightarrow> string" where
  "str_nat n =
     (if n < 10 then [char_of (48 + n)]
      else str_nat (n div 10) @ [char_of (48 + n mod 10)])"

declare str_nat.simps [simp del]

definition q_audio_path :: "string \<Rightarrow> nat \<Rightarrow> string" where
  "q_audio_path temp_dir qa_index = temp_dir @ ''/q_'' @ str_nat qa_index @ ''.wav''"

definition a_audio_path :: "string \<Rightarrow> nat \<Rightarrow> string" where
  "a_audio_path temp_dir qa_index = temp_dir @ ''/a_'' @ str_nat qa_index @ ''.wav''"

definition AudioFileClip :: "world \<Rightarrow> string \<Rightarrow> error + audio_clip" where
  "AudioFileClip w p =
     (case temp_files w p of
        None \<Rightarrow> Inl (ClipError p)
      | Some f \<Rightarrow>
          (case ff_duration f of
             None \<Rightarrow> Inl (ClipError p)
           | Some d \<Rightarrow> Inr \<lparr>audio_path = p, audio_duration = d\<rparr>))"

text \<open>The body of the \<open>try\<close> (source lines 92 to 112).\<close>

definition build_clips :: "env \<Rightarrow> world \<Rightarrow> string \<Rightarrow> string \<Rightarrow> string \<Rightarrow> string
                             \<Rightarrow> error + segment list" where
  "build_clips e w question answer q_path a_path =
     (case AudioFileClip w q_path of
        Inl err \<Rightarrow> Inl err
      | Inr q_audio \<Rightarrow>
          (case AudioFileClip w a_path of
             Inl err \<Rightarrow> Inl err
           | Inr a_audio \<Rightarrow>
               (let q_image = create_text_image (paint e) (''Q: '' @ question)
                                default_size default_bg_color default_text_color;
                    a_image = create_text_image (paint e) (''A: '' @ answer)
                                default_size (0, 64, 0) default_text_color;
                    q_clip = \<lparr>frame = q_image, duration = audio_duration q_audio,
                              audio = Some q_audio\<rparr>;
                    a_clip = \<lparr>frame = a_image, duration = audio_duration a_audio,
                              audio = Some a_audio\<rparr>;
                    pause = \<lparr>frame = create_text_image (paint e) [] default_size (0, 0, 0)
                                       default_text_color,
                             duration = 1 / 2, audio = None\<rparr>
                in Inr [q_clip, pause, a_clip, pause])))"

text \<open>
  The \<open>finally\<close> (source lines 114 to 121): the loop unlinks each file that exists; an
  exception of \<open>unlink\<close> leaves the loop, and is only printed.
\<close>

fun unlink_each :: "env \<Rightarrow> string list \<Rightarrow> world \<Rightarrow> world" where
  "unlink_each e [] w = w"
| "unlink_each e (file # rest) w =
     (if temp_files w file \<noteq> None
      then (if unlink_fails e file then w
            else unlink_each e rest (w\<lparr>temp_files := (temp_files w)(file := None)\<rparr>))
      else unlink_each e rest w)"

text \<open>
  The two \<open>create_audio_file\<close> calls and the \<open>raise\<close> (source line 88 and 89) come before
  the \<open>try\<close>: an exit taken there does not pass through the \<open>finally\<close>. The \<open>or\<close> does
  not evaluate its second operand when the first call returned \<open>False\<close>.
\<close>

definition create_qa_clip :: "env \<Rightarrow> world \<Rightarrow> string \<Rightarrow> string \<Rightarrow> string \<Rightarrow> nat
                                \<Rightarrow> (error + segment list) \<times> world" where
  "create_qa_clip e w question answer temp_dir qa_index =
     (let q_path = q_audio_path temp_dir qa_index;
          a_path = a_audio_path temp_dir qa_index
      in case create_audio_file e w question q_path of
           (Inl err, w) \<Rightarrow> (Inl err, w)
         | (Inr False, w) \<Rightarrow> (Inl (RuntimeError ''Failed to create or test audio files''), w)
         | (Inr True, w) \<Rightarrow>
             (case create_audio_file e w answer a_path of
                (Inl err, w) \<Rightarrow> (Inl err, w)
              | (Inr False, w) \<Rightarrow>
                  (Inl (RuntimeError ''Failed to create or test audio files''), w)
              | (Inr True, w) \<Rightarrow>
                  (build_clips e w question answer q_path a_path,
                   unlink_each e [q_path, a_path] w)))"

section \<open>Timeline aggregator and encoder: \<open>create_video\<close>\<close>

text \<open>
  The loop over \<open>enumerate(qa_pairs, 1)\<close> (source lines 132 to 136). A row is a list of
  cells; unpacking it into \<open>(question, answer)\<close> raises \<open>ValueError\<close> unless it has
  exactly two.
\<close>

fun process_pairs :: "env \<Rightarrow> string \<Rightarrow> nat \<Rightarrow> string list list \<Rightarrow> segment list \<Rightarrow> world
                        \<Rightarrow> (error + segment list) \<times> world" where
  "process_pairs e temp_path i [] all_clips w = (Inr all_clips, w)"
| "process_pairs e temp_path i (row # rest) all_clips w =
     (case row of
        [question, answer] \<Rightarrow>
          (case create_qa_clip e w (py_strip question) (py_strip answer) temp_path i of
             (Inl err, w) \<Rightarrow> (Inl err, w)
           | (Inr clips, w) \<Rightarrow> process_pairs e temp_path (i + 1) rest (all_clips @ clips) w)
      | _ \<Rightarrow>
          (Inl (ValueError
                  (if length row < 2
                   then ''not enough values to unpack (expected 2, got ''
                        @ str_nat (length row) @ '')''
                   else ''too many values to unpack (expected 2)'')), w))"

text \<open>
  \<open>concatenate_videoclips\<close> belongs to the video library. As there, the running sums of
  \<open>[0] + durations\<close> give the start time of each clip and, last, the length of the
  result; an empty list raises.
\<close>

fun cumsum :: "rat \<Rightarrow> rat list \<Rightarrow> rat list" where
  "cumsum acc [] = []"
| "cumsum acc (x # xs) = (acc + x) # cumsum (acc + x) xs"

definition concatenate_videoclips :: "segment list \<Rightarrow> error + timeline" where
  "concatenate_videoclips cs =
     (if cs = [] then Inl (ValueError ''max() arg is an empty sequence'')
      else (let tt = cumsum 0 (0 # map duration cs)
            in Inr \<lparr>parts = cs, starts = butlast tt, total_duration = last tt\<rparr>))"

definition primary_params :: enc_params where
  "primary_params =
     \<lparr>fps = 24, codec = ''libx264'', audio_codec = ''aac'', audio_bitrate = ''192k'',
      ffmpeg_params = [''-strict'', ''-2'', ''-ac'', ''2'', ''-ar'', ''44100'']\<rparr>"

definition fallback_params :: enc_params where
  "fallback_params =
     \<lparr>fps = 24, codec = ''libx264'', audio_codec = ''libmp3lame'', audio_bitrate = ''192k'',
      ffmpeg_params = [''-ac'', ''2'']\<rparr>"

text \<open>
  The two \<open>write_videofile\<close> calls (source lines 145 to 170). A call that raises is
  taken to leave the output file as it was.
\<close>

definition encode :: "env \<Rightarrow> timeline \<Rightarrow> world \<Rightarrow> (error + unit) \<times> world" where
  "encode e final_video w =
     (let w = w\<lparr>encoder_calls := encoder_calls w @ [(primary_params, final_video)]\<rparr>
      in case write_videofile e primary_params final_video of
           None \<Rightarrow> (Inr (), w\<lparr>output_file := Some (primary_params, final_video)\<rparr>)
         | Some first_error \<Rightarrow>
             (let w = w\<lparr>encoder_calls := encoder_calls w @ [(fallback_params, final_video)]\<rparr>
              in case write_videofile e fallback_params final_video of
                   None \<Rightarrow> (Inr (), w\<lparr>output_file := Some (fallback_params, final_video)\<rparr>)
                 | Some msg \<Rightarrow> (Inl (EncoderError msg), w)))"

text \<open>
  The outer \<open>finally\<close> (source lines 175 to 185): every file of the temporary directory
  whose name has a dot is unlinked, a failure being passed over.
\<close>

definition remove_temp :: "env \<Rightarrow> world \<Rightarrow> world" where
  "remove_temp e w =
     w\<lparr>temp_files :=
          (\<lambda>p. if CHR ''.'' \<in> set p \<and> \<not> unlink_fails e p then None else temp_files w p)\<rparr>"

definition create_video :: "env \<Rightarrow> world \<Rightarrow> string list list \<Rightarrow> string
                              \<Rightarrow> (error + string) \<times> world" where
  "create_video e w qa_pairs output_dir =
     (let temp_path = ''temp'';
          (result, w) =
            (case process_pairs e temp_path 1 qa_pairs [] w of
               (Inl err, w) \<Rightarrow> (Inl err, w)
             | (Inr all_clips, w) \<Rightarrow>
                 (case concatenate_videoclips all_clips of
                    Inl err \<Rightarrow> (Inl err, w)
                  | Inr final_video \<Rightarrow>
                      (case encode e final_video w of
                         (Inl err, w) \<Rightarrow> (Inl err, w)
                       | (Inr u, w) \<Rightarrow> (Inr (output_dir @ ''/qa_video.mp4''), w))))
      in (result, remove_temp e w))"

section \<open>Entry point: \<open>main\<close>\<close>

text \<open>
  The handler \<open>except Exception as e\<close> of \<open>main\<close> prints \<open>Error:\<close> and the message.
  The closing self-test of the written file (source lines 215 to 224) only prints
  diagnostics and is left out.
\<close>

definition report :: "string \<Rightarrow> world \<Rightarrow> world" where
  "report msg w = print (''Error: '' @ msg) w"

definition main :: "env \<Rightarrow> string \<Rightarrow> world \<Rightarrow> world" where
  "main e csv w =
     (let w = print ''Testing audio system...'' w
      in case sd_play e 44100 44100 of
           Some msg \<Rightarrow> report msg w
         | None \<Rightarrow>
             (let w = print ''Audio system test complete'' w
              in if \<not> path_exists e csv
                 then print (''Error: CSV file not found: '' @ csv) w
                 else
                   (let w = print (CHR 0x0A # ''Reading CSV file...'') w
                    in case read_csv_with_encoding e csv w of
                         (Inl err, w) \<Rightarrow> report (error_message err) w
                       | (Inr qa_pairs, w) \<Rightarrow>
                           if qa_pairs = []
                           then print ''No Q&A pairs found in CSV file'' w
                           else
                             (case create_video e w qa_pairs ''output'' of
                                (Inl err, w) \<Rightarrow> report (error_message err) w
                              | (Inr output_path, w) \<Rightarrow>
                                  print (CHR 0x0A # ''Testing final video file...'')
                                    (print (CHR 0x0A # ''Video created successfully: ''
                                            @ output_path) w)))))"

section \<open>Notions used to state the properties\<close>

text \<open>A word: a non-empty string without whitespace, as \<open>split()\<close> produces them.\<close>

definition is_word :: "string \<Rightarrow> bool" where
  "is_word s \<longleftrightarrow> s \<noteq> [] \<and> list_all (\<lambda>c. \<not> py_isspace c) s"

text \<open>
  Greedy packing as the design describes it, on words: words are added to the current
  line while the estimate stays within the limit; when adding a word exceeds it, the
  line is closed without that word, which starts the next line. The result lists the
  words of each line.
\<close>

fun greedy :: "int \<Rightarrow> string list \<Rightarrow> string list \<Rightarrow> string list list" where
  "greedy max_width cur [] = (if cur = [] then [] else [cur])"
| "greedy max_width cur (word # words) =
     (if too_wide max_width (py_join '' '' (cur @ [word]))
      then cur # greedy max_width [word] words
      else greedy max_width (cur @ [word]) words)"

text \<open>Each line is closed only because the first word of the next one did not fit.\<close>

fun closed_by_next :: "int \<Rightarrow> string list list \<Rightarrow> bool" where
  "closed_by_next max_width (g # h # rest) \<longleftrightarrow>
     h \<noteq> [] \<and> too_wide max_width (py_join '' '' (g @ [hd h]))
     \<and> closed_by_next max_width (h # rest)"
| "closed_by_next max_width gs \<longleftrightarrow> True"

text \<open>
  The four clips of one row, as the composer builds them: the question frame (dark blue,
  \<open>Q:\<close> before the stripped question) with its audio and that audio's duration, a
  black pause of half a second without audio, the answer frame (dark green, \<open>A:\<close>)
  with its audio, and the pause again.
\<close>

definition pause_clip :: segment where
  "pause_clip = \<lparr>frame = replicate 720 (replicate 1280 (0, 0, 0)), duration = 1 / 2,
                  audio = None\<rparr>"

definition speech_clip :: "painter \<Rightarrow> string \<Rightarrow> color \<Rightarrow> audio_clip \<Rightarrow> segment" where
  "speech_clip pt caption bg a =
     \<lparr>frame = create_text_image pt caption (1280, 720) bg (255, 255, 255),
      duration = audio_duration a, audio = Some a\<rparr>"




section \<open>Concrete runs\<close>

text \<open>
  Audio files: one and a half seconds at 22050 Hz; a decodable file without frames; a
  file that neither reader can decode.
\<close>

definition good_wav :: wav where
  "good_wav = \<lparr>sf_data = Some (33075, 22050), ff_duration = Some (3 / 2)\<rparr>"


definition broken_wav :: wav where
  "broken_wav = \<lparr>sf_data = None, ff_duration = None\<rparr>"

definition fresh_world :: world where
  "fresh_world = \<lparr>temp_files = Map.empty, output_file = None, encoder_calls = [], stdout = []\<rparr>"

text \<open>
  An environment in which every collaborator works: the engine writes \<open>good_wav\<close> for
  every text, and the table has a header and the two rows of the design's scenario.
\<close>

definition studio :: env where
  "studio =
     \<lparr>paint = (\<lambda>line fill i j p. p),
      speak = (\<lambda>t. Writes good_wav),
      sd_play = (\<lambda>n rate. None),
      unlink_fails = (\<lambda>p. False),
      write_videofile = (\<lambda>params final_video. None),
      path_exists = (\<lambda>p. True),
      csv_rows = (\<lambda>p encoding.
         Some [[''question'', ''answer''], [''What is 2+2?'', ''4''],
               [''Capital of France?'', ''Paris'']])\<rparr>"


text \<open>The file written for the answer \<open>4\<close> cannot be decoded.\<close>

definition broken_answer_studio :: env where
  "broken_answer_studio =
     studio\<lparr>speak := (\<lambda>t. if t = ''4'' then Writes broken_wav else Writes good_wav)\<rparr>"

text \<open>The table holds the header row only, under every encoding.\<close>

definition header_only_studio :: env where
  "header_only_studio = studio\<lparr>csv_rows := (\<lambda>p encoding. Some [[''question'', ''answer'']])\<rparr>"

text \<open>The encoder raises for the AAC codec; and the encoder raises for every codec.\<close>

definition no_aac_studio :: env where
  "no_aac_studio =
     studio\<lparr>write_videofile :=
       (\<lambda>params final_video.
          if audio_codec params = ''aac'' then Some ''Unknown encoder aac'' else None)\<rparr>"

definition no_encoder_studio :: env where
  "no_encoder_studio =
     studio\<lparr>write_videofile := (\<lambda>params final_video. Some ''ffmpeg not found'')\<rparr>"


text \<open>The two rows of the design's scenario, and the eight clips they give in \<open>studio\<close>.\<close>

definition scenario_rows :: "string list list" where
  "scenario_rows = [[''What is 2+2?'', ''4''], [''Capital of France?'', ''Paris'']]"

definition scenario_clips :: "painter \<Rightarrow> segment list" where
  "scenario_clips pt =
     [speech_clip pt ''Q: What is 2+2?'' (0, 0, 128)
        \<lparr>audio_path = ''temp/q_1.wav'', audio_duration = 3 / 2\<rparr>,
      pause_clip,
      speech_clip pt ''A: 4'' (0, 64, 0)
        \<lparr>audio_path = ''temp/a_1.wav'', audio_duration = 3 / 2\<rparr>,
      pause_clip,
      speech_clip pt ''Q: Capital of France?'' (0, 0, 128)
        \<lparr>audio_path = ''temp/q_2.wav'', audio_duration = 3 / 2\<rparr>,
      pause_clip,
      speech_clip pt ''A: Paris'' (0, 64, 0)
        \<lparr>audio_path = ''temp/a_2.wav'', audio_duration = 3 / 2\<rparr>,
      pause_clip]"

section \<open>Properties of the frame renderer\<close>

subsection \<open>Splitting and joining\<close>

lemma split_from_word_prefix:
  "list_all (\<lambda>c. \<not> py_isspace c) v \<Longrightarrow> split_from w (v @ cs) = split_from (w @ v) cs"
  by (induction v arbitrary: w) auto

lemma py_isspace_space: "py_isspace CHR '' ''"
  by (simp add: py_isspace_def)

lemma split_from_word_end: "is_word x \<Longrightarrow> split_from [] x = [x]"
  using split_from_word_prefix [of x "[]" "[]"] by (simp add: is_word_def)

lemma split_from_word_space:
  "is_word x \<Longrightarrow> split_from [] (x @ CHR '' '' # cs) = x # split_from [] cs"
  using split_from_word_prefix [of x "[]" "CHR '' '' # cs"]
  by (simp add: is_word_def py_isspace_space)

lemma split_join: "list_all is_word ws \<Longrightarrow> py_split (py_join '' '' ws) = ws"
  unfolding py_split_def
proof (induction "'' ''" ws rule: py_join.induct)
  case 1
  show ?case by simp
next
  case (2 x)
  then show ?case by (simp add: split_from_word_end)
next
  case (3 x y ys)
  then show ?case by (simp add: split_from_word_space)
qed

lemma split_from_words:
  "list_all (\<lambda>c. \<not> py_isspace c) w \<Longrightarrow> list_all is_word (split_from w cs)"
  by (induction w cs rule: split_from.induct) (auto simp: is_word_def)

lemma py_split_words: "list_all is_word (py_split text)"
  by (simp add: py_split_def split_from_words)

subsection \<open>The wrapping loop is greedy packing\<close>

lemma wrap_loop_greedy:
  "wrap_loop mw lines cur ws = (lines', cur') \<Longrightarrow>
   lines' @ (if cur' \<noteq> [] then [py_join '' '' cur'] else [])
     = lines @ map (py_join '' '') (greedy mw cur ws)"
proof (induction ws arbitrary: lines cur)
  case Nil
  then show ?case by auto
next
  case (Cons w ws)
  show ?case
  proof (cases "too_wide mw (py_join '' '' (cur @ [w]))")
    case True
    with Cons.prems
    have "wrap_loop mw (lines @ [py_join '' '' cur]) [w] ws = (lines', cur')"
      by (simp add: Let_def)
    from Cons.IH [OF this] True show ?thesis by simp
  next
    case False
    with Cons.prems have "wrap_loop mw lines (cur @ [w]) ws = (lines', cur')"
      by (simp add: Let_def)
    from Cons.IH [OF this] False show ?thesis by simp
  qed
qed

lemma text_lines_greedy:
  "text_lines text sz = map (py_join '' '') (greedy (int (fst sz) - 2 * margin) [] (py_split text))"
proof -
  obtain lines cur where
    wl: "wrap_loop (int (fst sz) - 2 * margin) [] [] (py_split text) = (lines, cur)"
    by (cases "wrap_loop (int (fst sz) - 2 * margin) [] [] (py_split text)")
  from wrap_loop_greedy [OF wl] wl show ?thesis
    by (simp add: text_lines_def Let_def split: if_splits)
qed

lemma concat_greedy: "concat (greedy mw cur ws) = cur @ ws"
  by (induction ws arbitrary: cur) auto

lemma greedy_words:
  "list_all is_word cur \<Longrightarrow> list_all is_word ws \<Longrightarrow>
   list_all (list_all is_word) (greedy mw cur ws)"
  by (induction ws arbitrary: cur) auto

lemma greedy_fits:
  "length cur \<le> 1 \<or> \<not> too_wide mw (py_join '' '' cur) \<Longrightarrow>
   list_all (\<lambda>g. length g \<le> 1 \<or> \<not> too_wide mw (py_join '' '' g)) (greedy mw cur ws)"
  by (induction ws arbitrary: cur) auto

lemma greedy_hd:
  "cur \<noteq> [] \<Longrightarrow> \<exists>r rest. greedy mw cur ws = (cur @ r) # rest"
proof (induction ws arbitrary: cur)
  case Nil
  then show ?case by simp
next
  case (Cons w ws)
  show ?case
  proof (cases "too_wide mw (py_join '' '' (cur @ [w]))")
    case True
    then show ?thesis by simp
  next
    case False
    from Cons.IH [of "cur @ [w]"] obtain r rest
      where "greedy mw (cur @ [w]) ws = ((cur @ [w]) @ r) # rest" by auto
    with False show ?thesis by simp
  qed
qed

lemma greedy_closed_by_next: "closed_by_next mw (greedy mw cur ws)"
proof (induction ws arbitrary: cur)
  case Nil
  then show ?case by simp
next
  case (Cons w ws)
  show ?case
  proof (cases "too_wide mw (py_join '' '' (cur @ [w]))")
    case True
    from greedy_hd [of "[w]" mw ws] obtain r rest
      where g: "greedy mw [w] ws = ([w] @ r) # rest" by auto
    from Cons.IH [of "[w]"] g True show ?thesis by simp
  next
    case False
    with Cons.IH [of "cur @ [w]"] show ?thesis by simp
  qed
qed

lemma length_join_snoc: "length (py_join sep cur) \<le> length (py_join sep (cur @ [w]))"
  by (induction sep cur rule: py_join.induct) auto

lemma length_join_last: "length w \<le> length (py_join sep (cur @ [w]))"
  by (induction sep cur rule: py_join.induct) auto

lemma too_wide_mono: "too_wide mw s \<Longrightarrow> length s \<le> length t \<Longrightarrow> too_wide mw t"
proof -
  assume a: "too_wide mw s" and b: "length s \<le> length t"
  have "(of_nat (length s) :: rat) * (of_int font_size / 2)
          \<le> of_nat (length t) * (of_int font_size / 2)"
    using b by (intro mult_right_mono) (simp_all add: font_size_def)
  with a show ?thesis by (simp add: too_wide_def)
qed

lemma greedy_wide_cur:
  "cur \<noteq> [] \<Longrightarrow> too_wide mw (py_join '' '' cur) \<Longrightarrow> \<exists>rest. greedy mw cur ws = cur # rest"
  by (cases ws) (auto dest: too_wide_mono [OF _ length_join_snoc])

lemma greedy_wide_word:
  "w \<in> set ws \<Longrightarrow> too_wide mw w \<Longrightarrow> [w] \<in> set (greedy mw cur ws)"
proof (induction ws arbitrary: cur)
  case Nil
  then show ?case by simp
next
  case (Cons x xs)
  show ?case
  proof (cases "x = w")
    case True
    have "too_wide mw (py_join '' '' (cur @ [w]))"
      using Cons.prems(2) length_join_last too_wide_mono by blast
    moreover obtain rest where "greedy mw [w] xs = [w] # rest"
      using greedy_wide_cur [of "[w]" mw xs] Cons.prems(2) by auto
    ultimately show ?thesis using True by simp
  next
    case False
    with Cons.prems have "w \<in> set xs" by simp
    from Cons.IH [OF this Cons.prems(2)] show ?thesis by simp
  qed
qed

lemma map_split_join:
  "list_all (list_all is_word) gs \<Longrightarrow> map py_split (map (py_join '' '') gs) = gs"
  by (induction gs) (simp_all add: split_join)

lemma too_wide_estimate:
  "too_wide (int (fst sz) - 2 * margin) s \<longleftrightarrow> int (length s) * 24 > int (fst sz) - 120"
proof -
  have l: "(of_nat (length s) :: rat) * (of_int 48 / 2) = of_int (int (length s) * 24)"
    by simp
  have r: "int (fst sz) - 2 * 60 = int (fst sz) - 120"
    by simp
  show ?thesis
    unfolding too_wide_def font_size_def margin_def
    by (simp only: l r of_int_less_iff)
qed

lemma groups_of_text_lines:
  "map py_split (text_lines text sz)
     = greedy (int (fst sz) - 2 * margin) [] (py_split text)"
  unfolding text_lines_greedy
  by (rule map_split_join) (simp add: greedy_words py_split_words)

lemma fits_lines:
  "list_all (\<lambda>g. length g \<le> 1 \<or> \<not> too_wide mw (py_join '' '' g)) gs \<Longrightarrow>
   list_all (list_all is_word) gs \<Longrightarrow>
   list_all (\<lambda>line. length (py_split line) \<le> 1 \<or> \<not> too_wide mw line)
     (map (py_join '' '') gs)"
  by (induction gs) (simp_all add: split_join)

text \<open>
  Claim C7. The wrapping loop of \<open>create_text_image\<close> packs the words greedily. The
  estimate compares \<open>len(test_line) * 24\<close> with \<open>size[0] - 120\<close>. The words of the
  lines are those of greedy packing; put end to end they are the words of the text, so
  no word is split, lost or moved; a line of two or more words fits the limit; a line is
  closed only when the next word, added to it, exceeds the limit, and that word starts
  the next line; and a word that exceeds the limit by itself is a line of its own.
\<close>

theorem word_wrap_greedy:
  "(too_wide (int (fst sz) - 2 * margin) s \<longleftrightarrow> int (length s) * 24 > int (fst sz) - 120)
   \<and> map py_split (text_lines text sz)
       = greedy (int (fst sz) - 2 * margin) [] (py_split text)
   \<and> concat (map py_split (text_lines text sz)) = py_split text
   \<and> list_all (\<lambda>line. length (py_split line) \<le> 1
                        \<or> \<not> too_wide (int (fst sz) - 2 * margin) line)
        (text_lines text sz)
   \<and> closed_by_next (int (fst sz) - 2 * margin) (map py_split (text_lines text sz))
   \<and> (\<forall>w \<in> set (py_split text).
         too_wide (int (fst sz) - 2 * margin) w \<longrightarrow> w \<in> set (text_lines text sz))"
proof -
  let ?mw = "int (fst sz) - 2 * margin"
  let ?gs = "greedy ?mw [] (py_split text)"
  have words: "list_all (list_all is_word) ?gs"
    by (simp add: greedy_words py_split_words)
  have a: "too_wide ?mw s \<longleftrightarrow> int (length s) * 24 > int (fst sz) - 120"
    by (rule too_wide_estimate)
  have b: "map py_split (text_lines text sz) = ?gs"
    by (rule groups_of_text_lines)
  have c: "concat (map py_split (text_lines text sz)) = py_split text"
    by (simp add: b concat_greedy)
  have d: "list_all (\<lambda>line. length (py_split line) \<le> 1 \<or> \<not> too_wide ?mw line)
             (text_lines text sz)"
    unfolding text_lines_greedy
    by (rule fits_lines [OF greedy_fits words]) simp
  have e: "closed_by_next ?mw (map py_split (text_lines text sz))"
    by (simp add: b greedy_closed_by_next)
  have f: "\<forall>w \<in> set (py_split text). too_wide ?mw w \<longrightarrow> w \<in> set (text_lines text sz)"
  proof (intro ballI impI)
    fix w assume "w \<in> set (py_split text)" and "too_wide ?mw w"
    then have "[w] \<in> set ?gs" by (rule greedy_wide_word)
    then have "py_join '' '' [w] \<in> py_join '' '' ` set ?gs" by (rule imageI)
    then show "w \<in> set (text_lines text sz)" by (simp add: text_lines_greedy)
  qed
  from a b c d e f show ?thesis by blast
qed

text \<open>C7 on a frame 240 wide, where five characters fit and six do not.\<close>

theorem word_wrap_greedy_witness:
  "text_lines ''ab cd efghijk xy'' (240, 1) = [''ab cd'', ''efghijk'', ''xy'']
   \<and> too_wide (int (fst (240 :: nat, 1 :: nat)) - 2 * margin) ''efghijk''
   \<and> ''efghijk'' \<in> set (text_lines ''ab cd efghijk xy'' (240, 1))"
proof -
  have ev: "text_lines ''ab cd efghijk xy'' (240, 1) = [''ab cd'', ''efghijk'', ''xy'']"
    by code_simp
  have wide: "too_wide (int (fst (240 :: nat, 1 :: nat)) - 2 * margin) ''efghijk''"
    by code_simp
  have mem: "''efghijk'' \<in> set (py_split ''ab cd efghijk xy'')"
    by code_simp
  from word_wrap_greedy [of "(240, 1)" "[]" "''ab cd efghijk xy''"] mem wide
  have "''efghijk'' \<in> set (text_lines ''ab cd efghijk xy'' (240, 1))" by blast
  with ev wide show ?thesis by simp
qed

text \<open>
  Claim C10. When the first word of the text exceeds the estimated limit by itself, the
  layout starts with an empty line: the lines are the empty string, then that word on
  its own, then the lines of the remaining words; the empty line is drawn at \<open>y = 60\<close>
  and the word one line height lower, at \<open>y = 132\<close>.
\<close>

theorem first_word_too_wide_empty_line:
  assumes "py_split text = w # ws"
    and "too_wide (int (fst sz) - 2 * margin) w"
  shows "\<exists>rest. text_lines text sz = [] # w # rest
           \<and> concat (map py_split rest) = ws
           \<and> layout margin (text_lines text sz)
               = ((60, 60), []) # ((60, 132), w) # layout 204 rest"
proof -
  let ?mw = "int (fst sz) - 2 * margin"
  obtain gs where gs: "greedy ?mw [w] ws = [w] # gs"
    using greedy_wide_cur [of "[w]" ?mw ws] assms(2) by auto
  have g: "greedy ?mw [] (py_split text) = [] # [w] # gs"
    using assms gs by simp
  have "list_all (list_all is_word) (greedy ?mw [] (py_split text))"
    by (simp add: greedy_words py_split_words)
  with g have words: "list_all (list_all is_word) gs" by simp
  have "concat (greedy ?mw [w] ws) = [w] @ ws" by (rule concat_greedy)
  with gs have cc: "concat gs = ws" by simp
  have tl: "text_lines text sz = [] # w # map (py_join '' '') gs"
    by (simp add: text_lines_greedy g)
  have "concat (map py_split (map (py_join '' '') gs)) = ws"
    by (simp only: map_split_join [OF words] cc)
  moreover have "layout margin (text_lines text sz)
      = ((60, 60), []) # ((60, 132), w) # layout 204 (map (py_join '' '') gs)"
    by (simp add: tl margin_def line_height_def font_size_def)
  ultimately show ?thesis using tl by blast
qed

text \<open>C10 on a frame 240 wide with a first word of eleven characters.\<close>

theorem first_word_too_wide_empty_line_witness:
  "py_split ''abcdefghijk xy z'' = ''abcdefghijk'' # [''xy'', ''z'']
   \<and> too_wide (int (fst (240 :: nat, 1 :: nat)) - 2 * margin) ''abcdefghijk''
   \<and> (\<exists>rest. text_lines ''abcdefghijk xy z'' (240, 1) = [] # ''abcdefghijk'' # rest
         \<and> concat (map py_split rest) = [''xy'', ''z'']
         \<and> layout margin (text_lines ''abcdefghijk xy z'' (240, 1))
             = ((60, 60), []) # ((60, 132), ''abcdefghijk'') # layout 204 rest)"
proof -
  have sp: "py_split ''abcdefghijk xy z'' = ''abcdefghijk'' # [''xy'', ''z'']"
    by code_simp
  have wide: "too_wide (int (fst (240 :: nat, 1 :: nat)) - 2 * margin) ''abcdefghijk''"
    by code_simp
  from first_word_too_wide_empty_line [OF sp wide] sp wide show ?thesis by blast
qed

subsection \<open>Frames\<close>

lemma length_draw_text: "length (draw_text p img xy line fill) = length img"
  by (simp add: draw_text_def)

lemma row_lengths_draw_text: "map length (draw_text p img xy line fill) = map length img"
proof -
  have "map length (map (\<lambda>(j, row). map (\<lambda>(i, q). p line fill (int i - fst xy) (int j - snd xy) q)
          (enumerate 0 row)) (enumerate n img)) = map length img" for n
    by (induction img arbitrary: n) simp_all
  then show ?thesis by (simp add: draw_text_def)
qed

lemma length_draw_lines: "length (draw_lines p tc img ls) = length img"
  by (induction p tc img ls rule: draw_lines.induct) (simp_all add: length_draw_text)

lemma row_lengths_draw_lines: "map length (draw_lines p tc img ls) = map length img"
  by (induction p tc img ls rule: draw_lines.induct) (simp_all add: row_lengths_draw_text)

lemma create_text_image_empty:
  "create_text_image pt [] sz bg_color text_color
     = replicate (snd sz) (replicate (fst sz) bg_color)"
  by (simp add: create_text_image_def text_lines_def py_split_def Image_new_def)

lemma text_lines_words:
  "py_split text = py_split text' \<Longrightarrow> text_lines text sz = text_lines text' sz"
  by (simp add: text_lines_def)

text \<open>
  Claim C8. The frame has \<open>size[1]\<close> rows of \<open>size[0]\<close> pixels, 720 rows of 1280 for
  the default size. The result is a function of the arguments and of the painter alone,
  and depends on the text only through its words, so two calls with the same inputs give
  the same buffer. The empty text gives the frame whose every pixel is the background
  colour.
\<close>

theorem create_text_image_frame:
  "length (create_text_image pt text sz bg_color text_color) = snd sz
   \<and> map length (create_text_image pt text sz bg_color text_color)
       = replicate (snd sz) (fst sz)
   \<and> length (create_text_image pt text default_size bg_color text_color) = 720
   \<and> map length (create_text_image pt text default_size bg_color text_color)
       = replicate 720 1280
   \<and> (py_split text' = py_split text \<longrightarrow>
        create_text_image pt text' sz bg_color text_color
          = create_text_image pt text sz bg_color text_color)
   \<and> create_text_image pt [] sz bg_color text_color
       = replicate (snd sz) (replicate (fst sz) bg_color)"
proof -
  have a: "length (create_text_image pt t s bg_color text_color) = snd s" for t s
    by (simp add: create_text_image_def length_draw_lines Image_new_def)
  have b: "map length (create_text_image pt t s bg_color text_color)
             = replicate (snd s) (fst s)" for t s
    by (simp add: create_text_image_def row_lengths_draw_lines Image_new_def)
  have c: "py_split text' = py_split text \<longrightarrow>
        create_text_image pt text' sz bg_color text_color
          = create_text_image pt text sz bg_color text_color"
    by (simp add: create_text_image_def text_lines_words [of "text'" "text"])
  have d: "create_text_image pt [] sz bg_color text_color
       = replicate (snd sz) (replicate (fst sz) bg_color)"
    by (simp add: create_text_image_def text_lines_def py_split_def Image_new_def)
  from a [of "text" sz] b [of "text" sz] a [of "text" default_size] b [of "text" default_size] c d
  show ?thesis by (simp add: default_size_def)
qed

text \<open>C8 on a frame of three by two pixels.\<close>

theorem create_text_image_frame_witness:
  "py_split ''a  b'' = py_split ''a b''
   \<and> create_text_image (paint studio) ''a  b'' (3, 2) (0, 0, 128) (255, 255, 255)
       = create_text_image (paint studio) ''a b'' (3, 2) (0, 0, 128) (255, 255, 255)
   \<and> create_text_image (paint studio) [] (3, 2) (0, 0, 128) (255, 255, 255)
       = [[(0, 0, 128), (0, 0, 128), (0, 0, 128)], [(0, 0, 128), (0, 0, 128), (0, 0, 128)]]"
proof -
  have sp: "py_split ''a  b'' = py_split ''a b''" by code_simp
  from create_text_image_frame [of "paint studio" "''a b''" "(3, 2)" "(0, 0, 128)" "(255, 255, 255)" "''a  b''"] sp
  show ?thesis by (simp add: numeral_3_eq_3 numeral_2_eq_2)
qed

section \<open>Properties of synthesis and composition\<close>

subsection \<open>File names\<close>

lemma audio_paths_differ: "q_audio_path temp_dir i \<noteq> a_audio_path temp_dir j"
  by (simp add: q_audio_path_def a_audio_path_def)

subsection \<open>What the composer returns\<close>

lemma create_audio_file_world:
  "create_audio_file e w t p = (r, w') \<Longrightarrow>
   w' = (case speak e t of Writes f \<Rightarrow> w\<lparr>temp_files := (temp_files w)(p \<mapsto> f)\<rparr> | _ \<Rightarrow> w)"
  by (auto simp: create_audio_file_def Let_def split: speech.splits)

lemma create_audio_file_keeps:
  "create_audio_file e w t p = (r, w') \<Longrightarrow>
   output_file w' = output_file w \<and> encoder_calls w' = encoder_calls w \<and> stdout w' = stdout w"
  by (auto simp: create_audio_file_def Let_def split: speech.splits)

lemma unlink_each_keeps:
  "output_file (unlink_each e ps w) = output_file w
   \<and> encoder_calls (unlink_each e ps w) = encoder_calls w
   \<and> stdout (unlink_each e ps w) = stdout w"
  by (induction e ps w rule: unlink_each.induct) simp_all

lemma AudioFileClip_Inr:
  "AudioFileClip w p = Inr a \<Longrightarrow>
   audio_path a = p \<and> (\<exists>f. temp_files w p = Some f \<and> ff_duration f = Some (audio_duration a))"
  by (auto simp: AudioFileClip_def split: option.splits)

lemma build_clips_Inr:
  assumes "build_clips e w question answer q_path a_path = Inr segs"
  shows "\<exists>q_audio a_audio.
           AudioFileClip w q_path = Inr q_audio \<and> AudioFileClip w a_path = Inr a_audio
           \<and> segs = [speech_clip (paint e) (''Q: '' @ question) (0, 0, 128) q_audio,
                     pause_clip,
                     speech_clip (paint e) (''A: '' @ answer) (0, 64, 0) a_audio,
                     pause_clip]"
  using assms
  by (auto simp: build_clips_def Let_def speech_clip_def pause_clip_def default_size_def
        default_bg_color_def default_text_color_def create_text_image_empty
        split: sum.splits)

lemma create_qa_clip_Inr:
  assumes "create_qa_clip e w question answer temp_dir qa_index = (Inr segs, w')"
  shows "\<exists>w1 w2.
           create_audio_file e w question (q_audio_path temp_dir qa_index) = (Inr True, w1)
           \<and> create_audio_file e w1 answer (a_audio_path temp_dir qa_index) = (Inr True, w2)
           \<and> build_clips e w2 question answer (q_audio_path temp_dir qa_index)
                (a_audio_path temp_dir qa_index) = Inr segs
           \<and> w' = unlink_each e [q_audio_path temp_dir qa_index,
                                  a_audio_path temp_dir qa_index] w2"
  using assms
  by (auto simp: create_qa_clip_def Let_def split: prod.splits sum.splits bool.splits)

text \<open>
  Claim C1. Whenever \<open>create_qa_clip\<close> returns, it returns exactly four clips: the
  question frame (background \<open>(0, 0, 128)\<close>, text \<open>Q:\<close> and the question) with the
  audio clip read from the question's file and that clip's duration as its own; a black
  frame of half a second without audio; the answer frame (background \<open>(0, 64, 0)\<close>,
  text \<open>A:\<close> and the answer) with the audio clip of the answer's file and its
  duration; and the same pause again. When the engine wrote the file, the clip's
  duration is the one read from the file written for that text.
\<close>

theorem create_qa_clip_four_segments:
  assumes "create_qa_clip e w question answer temp_dir qa_index = (Inr segs, w')"
  shows "\<exists>q_audio a_audio.
           segs = [\<lparr>frame = create_text_image (paint e) (''Q: '' @ question) (1280, 720)
                              (0, 0, 128) (255, 255, 255),
                    duration = audio_duration q_audio, audio = Some q_audio\<rparr>,
                   \<lparr>frame = replicate 720 (replicate 1280 (0, 0, 0)), duration = 1 / 2,
                    audio = None\<rparr>,
                   \<lparr>frame = create_text_image (paint e) (''A: '' @ answer) (1280, 720)
                              (0, 64, 0) (255, 255, 255),
                    duration = audio_duration a_audio, audio = Some a_audio\<rparr>,
                   \<lparr>frame = replicate 720 (replicate 1280 (0, 0, 0)), duration = 1 / 2,
                    audio = None\<rparr>]
           \<and> audio_path q_audio = q_audio_path temp_dir qa_index
           \<and> audio_path a_audio = a_audio_path temp_dir qa_index
           \<and> (\<forall>f. speak e question = Writes f \<longrightarrow> ff_duration f = Some (audio_duration q_audio))
           \<and> (\<forall>f. speak e answer = Writes f \<longrightarrow> ff_duration f = Some (audio_duration a_audio))"
proof -
  let ?q = "q_audio_path temp_dir qa_index" and ?a = "a_audio_path temp_dir qa_index"
  from create_qa_clip_Inr [OF assms] obtain w1 w2 where
    c1: "create_audio_file e w question ?q = (Inr True, w1)" and
    c2: "create_audio_file e w1 answer ?a = (Inr True, w2)" and
    b: "build_clips e w2 question answer ?q ?a = Inr segs"
    by blast
  from build_clips_Inr [OF b] obtain q_audio a_audio where
    qa: "AudioFileClip w2 ?q = Inr q_audio" and aa: "AudioFileClip w2 ?a = Inr a_audio" and
    segs: "segs = [speech_clip (paint e) (''Q: '' @ question) (0, 0, 128) q_audio, pause_clip,
                   speech_clip (paint e) (''A: '' @ answer) (0, 64, 0) a_audio, pause_clip]"
    by blast
  note w1 = create_audio_file_world [OF c1] and w2 = create_audio_file_world [OF c2]
  have neq: "?q \<noteq> ?a" by (rule audio_paths_differ)
  have q_file: "ff_duration f = Some (audio_duration q_audio)" if "speak e question = Writes f" for f
  proof -
    from that w1 have "temp_files w1 ?q = Some f" by simp
    with w2 neq have "temp_files w2 ?q = Some f" by (auto split: speech.splits)
    with AudioFileClip_Inr [OF qa] show ?thesis by auto
  qed
  have a_file: "ff_duration f = Some (audio_duration a_audio)" if "speak e answer = Writes f" for f
  proof -
    from that w2 have "temp_files w2 ?a = Some f" by simp
    with AudioFileClip_Inr [OF aa] show ?thesis by auto
  qed
  from segs AudioFileClip_Inr [OF qa] AudioFileClip_Inr [OF aa] q_file a_file
  show ?thesis
    by (intro exI [of _ q_audio] exI [of _ a_audio])
       (simp add: speech_clip_def pause_clip_def)
qed

lemma q_path_1: "q_audio_path ''temp'' (Suc 0) = ''temp/q_1.wav''"
  by code_simp

lemma a_path_1: "a_audio_path ''temp'' (Suc 0) = ''temp/a_1.wav''"
  by code_simp

text \<open>C1 for the first row of the scenario, in \<open>studio\<close>.\<close>

theorem create_qa_clip_four_segments_witness:
  "fst (create_qa_clip studio fresh_world ''What is 2+2?'' ''4'' ''temp'' 1)
     = Inr [speech_clip (paint studio) ''Q: What is 2+2?'' (0, 0, 128)
              \<lparr>audio_path = ''temp/q_1.wav'', audio_duration = 3 / 2\<rparr>,
            pause_clip,
            speech_clip (paint studio) ''A: 4'' (0, 64, 0)
              \<lparr>audio_path = ''temp/a_1.wav'', audio_duration = 3 / 2\<rparr>,
            pause_clip]
   \<and> (\<exists>q_audio a_audio.
         fst (create_qa_clip studio fresh_world ''What is 2+2?'' ''4'' ''temp'' 1)
           = Inr [\<lparr>frame = create_text_image (paint studio) (''Q: '' @ ''What is 2+2?'')
                             (1280, 720) (0, 0, 128) (255, 255, 255),
                    duration = audio_duration q_audio, audio = Some q_audio\<rparr>,
                  \<lparr>frame = replicate 720 (replicate 1280 (0, 0, 0)), duration = 1 / 2,
                    audio = None\<rparr>,
                  \<lparr>frame = create_text_image (paint studio) (''A: '' @ ''4'') (1280, 720)
                             (0, 64, 0) (255, 255, 255),
                    duration = audio_duration a_audio, audio = Some a_audio\<rparr>,
                  \<lparr>frame = replicate 720 (replicate 1280 (0, 0, 0)), duration = 1 / 2,
                    audio = None\<rparr>]
         \<and> audio_duration q_audio = 3 / 2 \<and> audio_duration a_audio = 3 / 2)"
proof -
  let ?run = "create_qa_clip studio fresh_world ''What is 2+2?'' ''4'' ''temp'' 1"
  let ?segs = "[speech_clip (paint studio) ''Q: What is 2+2?'' (0, 0, 128)
                  \<lparr>audio_path = ''temp/q_1.wav'', audio_duration = 3 / 2\<rparr>,
                pause_clip,
                speech_clip (paint studio) ''A: 4'' (0, 64, 0)
                  \<lparr>audio_path = ''temp/a_1.wav'', audio_duration = 3 / 2\<rparr>,
                pause_clip]"
  have ev: "fst ?run = Inr ?segs"
    by (simp add: create_qa_clip_def Let_def q_path_1 a_path_1 create_audio_file_def test_audio_def
          build_clips_def AudioFileClip_def studio_def fresh_world_def good_wav_def
          speech_clip_def pause_clip_def default_size_def default_bg_color_def
          default_text_color_def create_text_image_empty)
  then have run: "?run = (Inr ?segs, snd ?run)"
    by (simp add: prod_eq_iff)
  have sp: "speak studio t = Writes good_wav" for t
    by (simp add: studio_def)
  from create_qa_clip_four_segments [OF run] obtain q_audio a_audio where
    segs: "?segs = [\<lparr>frame = create_text_image (paint studio) (''Q: '' @ ''What is 2+2?'')
                             (1280, 720) (0, 0, 128) (255, 255, 255),
                    duration = audio_duration q_audio, audio = Some q_audio\<rparr>,
                  \<lparr>frame = replicate 720 (replicate 1280 (0, 0, 0)), duration = 1 / 2,
                    audio = None\<rparr>,
                  \<lparr>frame = create_text_image (paint studio) (''A: '' @ ''4'') (1280, 720)
                             (0, 64, 0) (255, 255, 255),
                    duration = audio_duration a_audio, audio = Some a_audio\<rparr>,
                  \<lparr>frame = replicate 720 (replicate 1280 (0, 0, 0)), duration = 1 / 2,
                    audio = None\<rparr>]" and
    q: "\<forall>f. speak studio ''What is 2+2?'' = Writes f \<longrightarrow> ff_duration f = Some (audio_duration q_audio)" and
    a: "\<forall>f. speak studio ''4'' = Writes f \<longrightarrow> ff_duration f = Some (audio_duration a_audio)"
    by blast
  from q sp have "audio_duration q_audio = 3 / 2" by (simp add: good_wav_def)
  moreover from a sp have "audio_duration a_audio = 3 / 2" by (simp add: good_wav_def)
  ultimately show ?thesis using ev segs by (intro conjI exI [of _ q_audio] exI [of _ a_audio]) simp_all
qed

subsection \<open>Validation of the synthesized file\<close>




subsection \<open>Cleanup when the answer fails\<close>

text \<open>
  Claim C5 fails on the code. In \<open>broken_answer_studio\<close> the question's file is
  written and passes the test, the answer's file cannot be decoded, and
  \<open>create_qa_clip\<close> raises its \<open>RuntimeError\<close> with the question's file still in the
  temporary directory: the \<open>raise\<close> comes before the \<open>try\<close> whose \<open>finally\<close>
  unlinks the files. On the successful run of \<open>studio\<close> the file is gone on return.
\<close>

theorem question_file_left_when_answer_fails:
  "fst (create_qa_clip broken_answer_studio fresh_world ''What is 2+2?'' ''4'' ''temp'' 1)
     = Inl (RuntimeError ''Failed to create or test audio files'')
   \<and> temp_files (snd (create_qa_clip broken_answer_studio fresh_world
                        ''What is 2+2?'' ''4'' ''temp'' 1)) ''temp/q_1.wav''
       = Some good_wav
   \<and> temp_files (snd (create_qa_clip studio fresh_world
                        ''What is 2+2?'' ''4'' ''temp'' 1)) ''temp/q_1.wav''
       = None"
  by (simp add: create_qa_clip_def Let_def q_path_1 a_path_1 create_audio_file_def test_audio_def
        build_clips_def AudioFileClip_def broken_answer_studio_def studio_def fresh_world_def
        good_wav_def broken_wav_def)

section \<open>Properties of aggregation and encoding\<close>

subsection \<open>The loop over the rows\<close>

lemma create_qa_clip_keeps:
  assumes "create_qa_clip e w question answer temp_dir qa_index = (r, w')"
  shows "output_file w' = output_file w \<and> encoder_calls w' = encoder_calls w
         \<and> stdout w' = stdout w"
proof -
  let ?q = "q_audio_path temp_dir qa_index" and ?a = "a_audio_path temp_dir qa_index"
  obtain r1 w1 where c1: "create_audio_file e w question ?q = (r1, w1)"
    by (cases "create_audio_file e w question ?q")
  obtain r2 w2 where c2: "create_audio_file e w1 answer ?a = (r2, w2)"
    by (cases "create_audio_file e w1 answer ?a")
  note k1 = create_audio_file_keeps [OF c1] and k2 = create_audio_file_keeps [OF c2]
  from assms c1 c2 have "w' = w1 \<or> w' = w2 \<or> w' = unlink_each e [?q, ?a] w2"
    by (auto simp: create_qa_clip_def Let_def split: sum.splits bool.splits)
  with k1 k2 unlink_each_keeps [of e "[?q, ?a]" w2] show ?thesis by auto
qed




lemma process_pairs_keeps:
  "process_pairs e temp_path i rows acc w = (r, w') \<Longrightarrow>
   output_file w' = output_file w \<and> encoder_calls w' = encoder_calls w \<and> stdout w' = stdout w"
proof (induction rows arbitrary: i acc w)
  case Nil
  then show ?case by simp
next
  case (Cons row rows)
  show ?case
  proof (cases "\<exists>question answer. row = [question, answer]")
    case False
    with Cons.prems show ?thesis by (auto split: list.splits)
  next
    case True
    then obtain question answer where row: "row = [question, answer]" by blast
    obtain r1 w1 where
      c: "create_qa_clip e w (py_strip question) (py_strip answer) temp_path i = (r1, w1)"
      by (cases "create_qa_clip e w (py_strip question) (py_strip answer) temp_path i")
    note k = create_qa_clip_keeps [OF c]
    show ?thesis
    proof (cases r1)
      case (Inl err)
      with Cons.prems row c k show ?thesis by auto
    next
      case (Inr segs)
      with Cons.prems row c
      have "process_pairs e temp_path (i + 1) rows (acc @ segs) w1 = (r, w')" by simp
      from Cons.IH [OF this] k show ?thesis by simp
    qed
  qed
qed

lemma last_cumsum: "last (cumsum acc (x # xs)) = acc + sum_list (x # xs)"
  by (induction xs arbitrary: acc x) (simp_all add: add.assoc)

lemma concatenate_videoclips_Inr:
  "cs \<noteq> [] \<Longrightarrow>
   \<exists>final_video. concatenate_videoclips cs = Inr final_video \<and> parts final_video = cs
     \<and> total_duration final_video = sum_list (map duration cs)"
  by (simp add: concatenate_videoclips_def Let_def last_cumsum del: cumsum.simps)


lemma remove_temp_keeps:
  "output_file (remove_temp e w) = output_file w
   \<and> encoder_calls (remove_temp e w) = encoder_calls w
   \<and> stdout (remove_temp e w) = stdout w"
  by (simp add: remove_temp_def)

lemma create_video_unfold:
  assumes "process_pairs e ''temp'' 1 qa_pairs [] w = (Inr all_clips, w1)"
    and "concatenate_videoclips all_clips = Inr final_video"
  shows "create_video e w qa_pairs output_dir
           = (case fst (encode e final_video w1) of
                Inl err \<Rightarrow> Inl err
              | Inr u \<Rightarrow> Inr (output_dir @ ''/qa_video.mp4''),
              remove_temp e (snd (encode e final_video w1)))"
  using assms
  by (simp add: create_video_def Let_def split: prod.splits sum.splits)

lemma q_path_2: "q_audio_path ''temp'' (Suc (Suc 0)) = ''temp/q_2.wav''"
  by code_simp

lemma a_path_2: "a_audio_path ''temp'' (Suc (Suc 0)) = ''temp/a_2.wav''"
  by code_simp

lemma strip_scenario:
  "py_strip ''What is 2+2?'' = ''What is 2+2?''" "py_strip ''4'' = ''4''"
  "py_strip ''Capital of France?'' = ''Capital of France?''" "py_strip ''Paris'' = ''Paris''"
  by code_simp+

lemma scenario_pairs:
  assumes "speak e = (\<lambda>t. Writes good_wav)" and "sd_play e = (\<lambda>n rate. None)"
  shows "fst (process_pairs e ''temp'' 1 scenario_rows [] w) = Inr (scenario_clips (paint e))"
  using assms
  by (simp add: scenario_rows_def scenario_clips_def strip_scenario create_qa_clip_def Let_def
        q_path_1 a_path_1 q_path_2 a_path_2 create_audio_file_def test_audio_def
        build_clips_def AudioFileClip_def good_wav_def
        speech_clip_def pause_clip_def default_size_def default_bg_color_def
        default_text_color_def create_text_image_empty numeral_2_eq_2)

subsection \<open>The timeline\<close>



subsection \<open>The encoder and its fallback\<close>

text \<open>
  Claim C3. When the first \<open>write_videofile\<close> call (H.264, AAC, 192k, \<open>-ac 2\<close>,
  \<open>-ar 44100\<close>) raises, \<open>create_video\<close> makes exactly one more call, with
  \<open>libmp3lame\<close> and \<open>-ac 2\<close> as the only encoder flag, on the same timeline. When
  that call raises too, no further call is made, \<open>create_video\<close> fails with the
  encoder's error and the output file is as before; when it returns,
  \<open>create_video\<close> returns the output path.
\<close>

theorem encoder_fallback_once:
  assumes "process_pairs e ''temp'' 1 qa_pairs [] w = (Inr all_clips, w1)"
    and "concatenate_videoclips all_clips = Inr final_video"
    and "write_videofile e primary_params final_video = Some first_error"
  shows "encoder_calls (snd (create_video e w qa_pairs output_dir))
           = encoder_calls w @ [(primary_params, final_video), (fallback_params, final_video)]
     \<and> (\<forall>msg. write_videofile e fallback_params final_video = Some msg \<longrightarrow>
           fst (create_video e w qa_pairs output_dir) = Inl (EncoderError msg)
           \<and> output_file (snd (create_video e w qa_pairs output_dir)) = output_file w)
     \<and> (write_videofile e fallback_params final_video = None \<longrightarrow>
           fst (create_video e w qa_pairs output_dir) = Inr (output_dir @ ''/qa_video.mp4'')
           \<and> output_file (snd (create_video e w qa_pairs output_dir))
               = Some (fallback_params, final_video))
     \<and> primary_params
         = \<lparr>fps = 24, codec = ''libx264'', audio_codec = ''aac'', audio_bitrate = ''192k'',
            ffmpeg_params = [''-strict'', ''-2'', ''-ac'', ''2'', ''-ar'', ''44100'']\<rparr>
     \<and> fallback_params
         = \<lparr>fps = 24, codec = ''libx264'', audio_codec = ''libmp3lame'',
            audio_bitrate = ''192k'', ffmpeg_params = [''-ac'', ''2'']\<rparr>"
proof -
  have k: "encoder_calls w1 = encoder_calls w" "output_file w1 = output_file w"
    using process_pairs_keeps [OF assms(1)] by simp_all
  show ?thesis
    using assms(3) k
    by (simp add: create_video_unfold [OF assms(1) assms(2)] remove_temp_keeps
          encode_def Let_def primary_params_def [symmetric] fallback_params_def [symmetric]
          split: option.splits)
qed

text \<open>
  C3 with an encoder that raises for every codec, and with one that raises for AAC only.
\<close>

theorem encoder_fallback_once_witness:
  "write_videofile no_encoder_studio primary_params
     \<lparr>parts = [], starts = [], total_duration = 0\<rparr> = Some ''ffmpeg not found''
   \<and> fst (create_video no_encoder_studio fresh_world scenario_rows ''output'')
       = Inl (EncoderError ''ffmpeg not found'')
   \<and> map fst (encoder_calls (snd (create_video no_encoder_studio fresh_world scenario_rows
                                     ''output'')))
       = [primary_params, fallback_params]
   \<and> output_file (snd (create_video no_encoder_studio fresh_world scenario_rows ''output''))
       = None
   \<and> fst (create_video no_aac_studio fresh_world scenario_rows ''output'')
       = Inr ''output/qa_video.mp4''
   \<and> map fst (encoder_calls (snd (create_video no_aac_studio fresh_world scenario_rows
                                     ''output'')))
       = [primary_params, fallback_params]
   \<and> map_option fst (output_file (snd (create_video no_aac_studio fresh_world scenario_rows
                                          ''output'')))
       = Some fallback_params"
proof -
  have clips_ne: "scenario_clips pt \<noteq> []" for pt
    by (simp add: scenario_clips_def)
  let ?e = no_encoder_studio
  let ?run = "process_pairs ?e ''temp'' 1 scenario_rows [] fresh_world"
  have "fst ?run = Inr (scenario_clips (paint ?e))"
    by (rule scenario_pairs) (simp_all add: no_encoder_studio_def studio_def)
  then have run: "?run = (Inr (scenario_clips (paint ?e)), snd ?run)"
    by (simp add: prod_eq_iff)
  from concatenate_videoclips_Inr [OF clips_ne] obtain fv where
    fv: "concatenate_videoclips (scenario_clips (paint ?e)) = Inr fv" by blast
  have w: "write_videofile ?e params tl = Some ''ffmpeg not found''" for params tl
    by (simp add: no_encoder_studio_def)
  note a = encoder_fallback_once [OF run fv w, of "''output''"]
  let ?e' = no_aac_studio
  let ?run' = "process_pairs ?e' ''temp'' 1 scenario_rows [] fresh_world"
  have "fst ?run' = Inr (scenario_clips (paint ?e'))"
    by (rule scenario_pairs) (simp_all add: no_aac_studio_def studio_def)
  then have run': "?run' = (Inr (scenario_clips (paint ?e')), snd ?run')"
    by (simp add: prod_eq_iff)
  from concatenate_videoclips_Inr [OF clips_ne] obtain fv' where
    fv': "concatenate_videoclips (scenario_clips (paint ?e')) = Inr fv'" by blast
  have w1: "write_videofile ?e' primary_params fv' = Some ''Unknown encoder aac''"
    by (simp add: no_aac_studio_def primary_params_def)
  have w2: "write_videofile ?e' fallback_params fv' = None"
    by (simp add: no_aac_studio_def fallback_params_def)
  note b = encoder_fallback_once [OF run' fv' w1, of "''output''"]
  from a w b w2 show ?thesis
    by (simp add: fresh_world_def)
qed

section \<open>Properties of the input table and the entry point\<close>



lemma try_encodings_keeps:
  "output_file (snd (try_encodings e p encs w)) = output_file w
   \<and> encoder_calls (snd (try_encodings e p encs w)) = encoder_calls w
   \<and> temp_files (snd (try_encodings e p encs w)) = temp_files w"
  by (induction encs arbitrary: w) (auto simp: Let_def print_def split: option.splits)

lemma read_csv_never_empty: "fst (read_csv_with_encoding e p w) \<noteq> Inr []"
proof -
  have "fst (try_encodings e p encs w) \<noteq> Inr []" for encs
  proof (induction encs arbitrary: w)
    case Nil
    show ?case by simp
  next
    case (Cons enc encs)
    show ?case
    proof (cases "csv_rows e p enc")
      case None
      with Cons show ?thesis by (simp add: Let_def)
    next
      case (Some data)
      with Cons show ?thesis by (cases data) (auto simp: Let_def)
    qed
  qed
  then show ?thesis by (simp add: read_csv_with_encoding_def)
qed



text \<open>
  Claim C6 fails on the code. On a table with the header row only the reader finds no
  encoding with more than one row and raises; \<open>main\<close> prints the reader's error, not
  the line \<open>No Q&A pairs found in CSV file\<close>, whose branch no result of the reader
  reaches (\<open>read_csv_never_empty\<close>). No encoder call is made and no output file is
  written.
\<close>

theorem header_only_table_reports_read_error:
  "stdout (main header_only_studio ''qa.csv'' fresh_world)
     = [''Testing audio system...'', ''Audio system test complete'',
        CHR 0x0A # ''Reading CSV file...'',
        ''Trying utf-8 encoding...'', ''Trying utf-8-sig encoding...'',
        ''Trying latin1 encoding...'', ''Trying cp1252 encoding...'',
        ''Error: Could not read CSV file with any encoding'']
   \<and> ''No Q&A pairs found in CSV file''
        \<notin> set (stdout (main header_only_studio ''qa.csv'' fresh_world))
   \<and> output_file (main header_only_studio ''qa.csv'' fresh_world) = None
   \<and> encoder_calls (main header_only_studio ''qa.csv'' fresh_world) = []"
  by (simp add: main_def Let_def read_csv_with_encoding_def encodings_def print_def report_def
        header_only_studio_def studio_def fresh_world_def)

end
